theory Spec2Isabelle
  imports Main "HOL-Library.Word"
begin

section \<open>Values, errors and the objects of the client\<close>

text \<open>
  The values that travel through \<^verbatim>\<open>hugging_py_face/nlp.py\<close> are the Python values that
  \<^verbatim>\<open>json.dumps\<close> writes and \<^verbatim>\<open>json.loads\<close> returns. A dict keeps its insertion order, so
  it is a list of key/value pairs; a float is carried as its 64 bit pattern and never
  computed with.
\<close>

datatype pyval =
    PNone
  | PBool bool
  | PInt int
  | PFloat "64 word"
  | PStr string
  | PList "pyval list"
  | PDict "(string \<times> pyval) list"

type_synonym dict = "(string \<times> pyval) list"

text \<open>The exceptions a call can end with.\<close>

datatype error =
    KeyError
  | IndexError
  | TypeError
  | ValueError
  | RequestException
  | UnicodeDecodeError
  | JSONDecodeError

text \<open>
  \<^verbatim>\<open>d[k] = v\<close> on a dict: an existing key keeps its place and gets the new value, a new
  key goes to the end.
\<close>

fun dict_setitem :: "dict \<Rightarrow> string \<Rightarrow> pyval \<Rightarrow> dict" where
  "dict_setitem [] k v = [(k, v)]"
| "dict_setitem ((k', v') # d) k v =
     (if k' = k then (k, v) # d else (k', v') # dict_setitem d k v)"

text \<open>\<^verbatim>\<open>for x in v\<close>: a list gives its elements, a dict its keys, a string its characters.\<close>

fun py_iter :: "pyval \<Rightarrow> error + pyval list" where
  "py_iter (PList xs) = Inr xs"
| "py_iter (PDict d) = Inr (map (\<lambda>(k, v). PStr k) d)"
| "py_iter (PStr s) = Inr (map (\<lambda>c. PStr [c]) s)"
| "py_iter v = Inl TypeError"

text \<open>\<^verbatim>\<open>v[0]\<close>. The keys of a dict are strings here, so \<^verbatim>\<open>0\<close> is never one of them.\<close>

fun getitem_0 :: "pyval \<Rightarrow> error + pyval" where
  "getitem_0 (PList []) = Inl IndexError"
| "getitem_0 (PList (x # xs)) = Inr x"
| "getitem_0 (PDict d) = Inl KeyError"
| "getitem_0 (PStr []) = Inl IndexError"
| "getitem_0 (PStr (c # s)) = Inr (PStr [c])"
| "getitem_0 v = Inl TypeError"

text \<open>\<^verbatim>\<open>v['key']\<close>: only a dict can be indexed by a string.\<close>

fun getitem_str :: "pyval \<Rightarrow> string \<Rightarrow> error + pyval" where
  "getitem_str (PDict d) k = (case map_of d k of None \<Rightarrow> Inl KeyError | Some v \<Rightarrow> Inr v)"
| "getitem_str v k = Inl TypeError"

text \<open>\<^verbatim>\<open>isinstance(v, list)\<close>.\<close>

fun isinstance_list :: "pyval \<Rightarrow> bool" where
  "isinstance_list (PList xs) = True"
| "isinstance_list v = False"

text \<open>
  A list comprehension \<^verbatim>\<open>[f(x) for x in xs]\<close> whose element expression can raise: the
  elements are computed in order and the first exception ends it.
\<close>

fun comprehension :: "(pyval \<Rightarrow> error + pyval) \<Rightarrow> pyval list \<Rightarrow> error + pyval list" where
  "comprehension f [] = Inr []"
| "comprehension f (x # xs) =
     (case f x of
        Inl e \<Rightarrow> Inl e
      | Inr y \<Rightarrow> (case comprehension f xs of Inl e \<Rightarrow> Inl e | Inr ys \<Rightarrow> Inr (y # ys)))"

text \<open>
  The configuration the constructor reads from \<^verbatim>\<open>ConfigParser().get_config_dict()\<close>. The
  parser is not part of the sources: the configuration is taken as it comes, with the two
  keys the client reads.
\<close>

record config =
  BASE_URL :: string
  TASK_MODEL_MAP :: "string \<rightharpoonup> string"

text \<open>The class \<^verbatim>\<open>NLP\<close>: the two attributes \<^verbatim>\<open>__init__\<close> sets.\<close>

record NLP =
  api_token :: string
  config :: config

text \<open>What \<^verbatim>\<open>requests.request\<close> is called with, and the part of its answer the client reads.\<close>

record request =
  http_method :: string
  url :: string
  headers :: "(string \<times> string) list"
  data :: string

record response =
  status_code :: nat
  content :: string

text \<open>
  The library functions the client calls and that are not part of this repository:
  \<^verbatim>\<open>json.dumps\<close>, \<^verbatim>\<open>json.loads\<close>, \<^verbatim>\<open>bytes.decode("utf-8")\<close>, \<^verbatim>\<open>requests.request\<close> (the
  remote service answers as it likes, possibly depending on the requests it has already
  received) and, for a dataframe of type \<open>'df\<close>, \<^verbatim>\<open>df[column].tolist()\<close> and
  \<^verbatim>\<open>df[key] = values\<close>. Each is a parameter; those that can raise return a sum.
\<close>

record 'df env =
  json_dumps :: "pyval \<Rightarrow> string"
  json_loads :: "string \<Rightarrow> error + pyval"
  decode :: "string \<Rightarrow> error + string"
  requests_request :: "request list \<Rightarrow> request \<Rightarrow> error + response"
  df_getitem_tolist :: "'df \<Rightarrow> string \<Rightarrow> error + pyval list"
  df_setitem :: "'df \<Rightarrow> string \<Rightarrow> pyval list \<Rightarrow> error + 'df"

text \<open>
  The state a call runs in: the client object \<^verbatim>\<open>self\<close>, the requests handed to
  \<^verbatim>\<open>requests.request\<close> so far, and the store of the dict objects that the caller and
  \<^verbatim>\<open>zero_shot_classification\<close> share by reference. Every address holds a dict, so a
  reference never dangles. The client is here what its attributes read; the section on the
  client's objects has the configuration as the dict it is in Python.
\<close>

type_synonym addr = nat

record state =
  client :: NLP
  sent :: "request list"
  heap :: "addr \<Rightarrow> dict"

text \<open>
  The dict \<^verbatim>\<open>{}\<close> that is the default of \<^verbatim>\<open>parameters\<close> in \<^verbatim>\<open>zero_shot_classification\<close>.
  Python evaluates a default once, when the \<^verbatim>\<open>def\<close> runs: it is one object, at one
  address.
\<close>

definition default_parameters :: addr where
  "default_parameters = 0"

text \<open>An argument with a default is either left out or passed.\<close>

datatype 'a arg = Omitted | Passed 'a

section \<open>The dispatcher\<close>

text \<open>
  \<^verbatim>\<open>NLP._query\<close>. The URL is computed first, and the lookup
  \<^verbatim>\<open>self.config['TASK_MODEL_MAP'][task]\<close> raises \<^verbatim>\<open>KeyError\<close> for a task that is not a
  key (\<^verbatim>\<open>None\<close> never is). The body is serialised, then the request is made.
\<close>

definition query ::
  "'df env \<Rightarrow> state \<Rightarrow> pyval \<Rightarrow> dict option \<Rightarrow> dict option \<Rightarrow> string option \<Rightarrow> string option
     \<Rightarrow> (error + pyval) \<times> state" where
  "query env st inputs parameters options model task =
     (case (case model of
              Some m \<Rightarrow> Inr m
            | None \<Rightarrow>
                (case task of
                   None \<Rightarrow> Inl KeyError
                 | Some t \<Rightarrow>
                     (case TASK_MODEL_MAP (config (client st)) t of
                        None \<Rightarrow> Inl KeyError
                      | Some m \<Rightarrow> Inr m))) of
        Inl e \<Rightarrow> (Inl e, st)
      | Inr m \<Rightarrow>
          (let api_url = BASE_URL (config (client st)) @ ''/'' @ m;
               hdrs = [(''Authorization'', ''Bearer '' @ api_token (client st))];
               body = [(''inputs'', inputs)];
               body = (case parameters of
                         None \<Rightarrow> body
                       | Some p \<Rightarrow> dict_setitem body ''parameters'' (PDict p));
               body = (case options of
                         None \<Rightarrow> body
                       | Some p \<Rightarrow> dict_setitem body ''options'' (PDict p));
               req = \<lparr>http_method = ''POST'', url = api_url, headers = hdrs,
                      data = json_dumps env (PDict body)\<rparr>;
               st' = st\<lparr>sent := sent st @ [req]\<rparr>
           in case requests_request env (sent st) req of
                Inl e \<Rightarrow> (Inl e, st')
              | Inr resp \<Rightarrow>
                  (case decode env (content resp) of
                     Inl e \<Rightarrow> (Inl e, st')
                   | Inr s \<Rightarrow> (json_loads env s, st'))))"

text \<open>\<^verbatim>\<open>NLP._query_in_df\<close>: the column is read before the dispatcher is called.\<close>

definition query_in_df ::
  "'df env \<Rightarrow> state \<Rightarrow> 'df \<Rightarrow> string \<Rightarrow> dict option \<Rightarrow> dict option \<Rightarrow> string option
     \<Rightarrow> string option \<Rightarrow> (error + pyval) \<times> state" where
  "query_in_df env st df column parameters options model task =
     (case df_getitem_tolist env df column of
        Inl e \<Rightarrow> (Inl e, st)
      | Inr xs \<Rightarrow> query env st (PList xs) parameters options model task)"

section \<open>The task methods\<close>

text \<open>
  Each method builds the \<^verbatim>\<open>inputs\<close> of its task and calls the dispatcher with the task's
  name. A \<^verbatim>\<open>Union[Text, List]\<close> argument is any value, a \<^verbatim>\<open>Text\<close> a string, a \<^verbatim>\<open>List\<close> a
  list of values, an \<^verbatim>\<open>Optional[Dict]\<close> a dict or \<^verbatim>\<open>None\<close>.
\<close>

definition fill_mask ::
  "'df env \<Rightarrow> state \<Rightarrow> pyval \<Rightarrow> dict option \<Rightarrow> string option \<Rightarrow> (error + pyval) \<times> state" where
  "fill_mask env st text options model =
     query env st text None options model (Some ''fill-mask'')"

definition summarization ::
  "'df env \<Rightarrow> state \<Rightarrow> pyval \<Rightarrow> dict option \<Rightarrow> dict option \<Rightarrow> string option
     \<Rightarrow> (error + pyval) \<times> state" where
  "summarization env st text parameters options model =
     query env st text parameters options model (Some ''summarization'')"

definition question_answering ::
  "'df env \<Rightarrow> state \<Rightarrow> string \<Rightarrow> string \<Rightarrow> string option \<Rightarrow> (error + pyval) \<times> state" where
  "question_answering env st question context model =
     query env st (PDict [(''question'', PStr question), (''context'', PStr context)])
       None None model (Some ''question-answering'')"

definition sentence_similarity ::
  "'df env \<Rightarrow> state \<Rightarrow> string \<Rightarrow> pyval list \<Rightarrow> dict option \<Rightarrow> string option
     \<Rightarrow> (error + pyval) \<times> state" where
  "sentence_similarity env st source_sentence sentences options model =
     query env st
       (PDict [(''source_sentence'', PStr source_sentence), (''sentences'', PList sentences)])
       None options model (Some ''sentence-similarity'')"

definition text_classification ::
  "'df env \<Rightarrow> state \<Rightarrow> pyval \<Rightarrow> dict option \<Rightarrow> string option \<Rightarrow> (error + pyval) \<times> state" where
  "text_classification env st text options model =
     query env st text None options model (Some ''text-classification'')"

definition text_generation ::
  "'df env \<Rightarrow> state \<Rightarrow> pyval \<Rightarrow> dict option \<Rightarrow> dict option \<Rightarrow> string option
     \<Rightarrow> (error + pyval) \<times> state" where
  "text_generation env st text parameters options model =
     query env st text parameters options model (Some ''text-generation'')"

text \<open>
  \<^verbatim>\<open>NLP.zero_shot_classification\<close>. Its first statement writes into the dict that
  \<^verbatim>\<open>parameters\<close> refers to, so \<^verbatim>\<open>parameters\<close> and \<^verbatim>\<open>options\<close> are references into the
  store here (\<^verbatim>\<open>None\<close>, or the address of a dict): the dispatcher then reads both dicts as
  they are after the write, also when the caller passed one object for both. Leaving
  \<^verbatim>\<open>parameters\<close> out gives the default object; \<^verbatim>\<open>None['candidate_labels'] = ...\<close> raises
  \<^verbatim>\<open>TypeError\<close>.
\<close>

definition zero_shot_classification ::
  "'df env \<Rightarrow> state \<Rightarrow> pyval \<Rightarrow> pyval list \<Rightarrow> addr option arg \<Rightarrow> addr option \<Rightarrow> string option
     \<Rightarrow> (error + pyval) \<times> state" where
  "zero_shot_classification env st text candidate_labels parameters options model =
     (let parameters = (case parameters of Omitted \<Rightarrow> Some default_parameters | Passed p \<Rightarrow> p)
      in case parameters of
           None \<Rightarrow> (Inl TypeError, st)
         | Some a \<Rightarrow>
             (let st' = st\<lparr>heap := (heap st)
                          (a := dict_setitem (heap st a) ''candidate_labels'' (PList candidate_labels))\<rparr>
              in query env st' text (Some (heap st' a)) (map_option (heap st') options) model
                   (Some ''zero-shot-classification'')))"

definition conversational ::
  "'df env \<Rightarrow> state \<Rightarrow> pyval \<Rightarrow> pyval option \<Rightarrow> pyval option \<Rightarrow> dict option \<Rightarrow> dict option
     \<Rightarrow> string option \<Rightarrow> (error + pyval) \<times> state" where
  "conversational env st text past_user_inputs generated_responses parameters options model =
     (let inputs = [(''text'', text)];
          inputs = (case past_user_inputs of
                      None \<Rightarrow> inputs
                    | Some v \<Rightarrow> dict_setitem inputs ''past_user_inputs'' v);
          inputs = (case generated_responses of
                      None \<Rightarrow> inputs
                    | Some v \<Rightarrow> dict_setitem inputs ''generated_responses'' v)
      in query env st (PDict inputs) parameters options model (Some ''conversational''))"

definition feature_extraction ::
  "'df env \<Rightarrow> state \<Rightarrow> pyval \<Rightarrow> dict option \<Rightarrow> string option \<Rightarrow> (error + pyval) \<times> state" where
  "feature_extraction env st text options model =
     query env st text None options model (Some ''feature-extraction'')"

section \<open>The tabular adapters\<close>

text \<open>
  \<^verbatim>\<open>NLP.fill_mask_in_df\<close>. \<^verbatim>\<open>any(...)\<close> iterates over the response, whatever it is; the
  batched branch takes \<^verbatim>\<open>prediction[0]['sequence']\<close> of every element, the other branch
  \<^verbatim>\<open>predictions[0]['sequence']\<close> once. What the dataframe does with the list it is given is
  the library's business.
\<close>

definition fill_mask_in_df ::
  "'df env \<Rightarrow> state \<Rightarrow> 'df \<Rightarrow> string \<Rightarrow> dict option \<Rightarrow> string option \<Rightarrow> (error + 'df) \<times> state" where
  "fill_mask_in_df env st df column options model =
     (case query_in_df env st df column None options model (Some ''fill-mask'') of
        (Inl e, st') \<Rightarrow> (Inl e, st')
      | (Inr predictions, st') \<Rightarrow>
          (case py_iter predictions of
             Inl e \<Rightarrow> (Inl e, st')
           | Inr ps \<Rightarrow>
               if list_ex isinstance_list ps
               then (case comprehension
                            (\<lambda>prediction.
                               case getitem_0 prediction of
                                 Inl e \<Rightarrow> Inl e
                               | Inr c \<Rightarrow> getitem_str c ''sequence'') ps of
                       Inl e \<Rightarrow> (Inl e, st')
                     | Inr vs \<Rightarrow> (df_setitem env df ''predictions'' vs, st'))
               else (case (case getitem_0 predictions of
                             Inl e \<Rightarrow> Inl e
                           | Inr c \<Rightarrow> getitem_str c ''sequence'') of
                       Inl e \<Rightarrow> (Inl e, st')
                     | Inr v \<Rightarrow> (df_setitem env df ''predictions'' [v], st'))))"

text \<open>
  \<^verbatim>\<open>NLP.summarization_in_df\<close>. The method has a \<^verbatim>\<open>parameters\<close> argument; its call of
  \<^verbatim>\<open>_query_in_df\<close> passes \<^verbatim>\<open>options\<close>, \<^verbatim>\<open>model\<close> and \<^verbatim>\<open>task\<close> only.
\<close>

definition summarization_in_df ::
  "'df env \<Rightarrow> state \<Rightarrow> 'df \<Rightarrow> string \<Rightarrow> dict option \<Rightarrow> dict option \<Rightarrow> string option
     \<Rightarrow> (error + 'df) \<times> state" where
  "summarization_in_df env st df column parameters options model =
     (case query_in_df env st df column None options model (Some ''summarization'') of
        (Inl e, st') \<Rightarrow> (Inl e, st')
      | (Inr predictions, st') \<Rightarrow>
          (case py_iter predictions of
             Inl e \<Rightarrow> (Inl e, st')
           | Inr ps \<Rightarrow>
               (case comprehension (\<lambda>prediction. getitem_str prediction ''summary_text'') ps of
                  Inl e \<Rightarrow> (Inl e, st')
                | Inr vs \<Rightarrow> (df_setitem env df ''predictions'' vs, st'))))"

definition text_classification_in_df ::
  "'df env \<Rightarrow> state \<Rightarrow> 'df \<Rightarrow> string \<Rightarrow> dict option \<Rightarrow> string option \<Rightarrow> (error + 'df) \<times> state" where
  "text_classification_in_df env st df column options model =
     (case query_in_df env st df column None options model (Some ''text-classification'') of
        (Inl e, st') \<Rightarrow> (Inl e, st')
      | (Inr predictions, st') \<Rightarrow>
          (case py_iter predictions of
             Inl e \<Rightarrow> (Inl e, st')
           | Inr ps \<Rightarrow>
               (case comprehension
                       (\<lambda>prediction.
                          case getitem_0 prediction of
                            Inl e \<Rightarrow> Inl e
                          | Inr c \<Rightarrow> getitem_str c ''label'') ps of
                  Inl e \<Rightarrow> (Inl e, st')
                | Inr vs \<Rightarrow> (df_setitem env df ''predictions'' vs, st'))))"

section \<open>A client and a library to run the methods on\<close>

text \<open>
  A client as \<^verbatim>\<open>NLP("hf_token")\<close> builds it from a configuration with three tasks, and the
  state before its first call: nothing sent, every dict of the store empty.
\<close>

definition example_client :: NLP where
  "example_client =
     \<lparr>api_token = ''hf_token'',
      config = \<lparr>BASE_URL = ''https://api.example/models'',
                TASK_MODEL_MAP = [''fill-mask'' \<mapsto> ''bert-base-uncased'',
                                  ''summarization'' \<mapsto> ''bart-large-cnn'',
                                  ''zero-shot-classification'' \<mapsto> ''bart-large-mnli'']\<rparr>\<rparr>"

definition example_state :: state where
  "example_state = \<lparr>client = example_client, sent = [], heap = (\<lambda>a. [])\<rparr>"

text \<open>
  A library for the examples. The serialiser, the parser, the remote service and the
  column assignment are whatever the example passes; bytes decode to themselves; a
  dataframe is the list of its columns.
\<close>

definition example_env ::
  "(pyval \<Rightarrow> string) \<Rightarrow> (string \<Rightarrow> error + pyval) \<Rightarrow> (request list \<Rightarrow> request \<Rightarrow> error + response)
     \<Rightarrow> ((string \<times> pyval list) list \<Rightarrow> string \<Rightarrow> pyval list \<Rightarrow> error + (string \<times> pyval list) list)
     \<Rightarrow> (string \<times> pyval list) list env" where
  "example_env dumps loads service setitem =
     \<lparr>json_dumps = dumps, json_loads = loads, decode = Inr, requests_request = service,
      df_getitem_tolist = (\<lambda>df column. case map_of df column of
                                             None \<Rightarrow> Inl KeyError
                                           | Some xs \<Rightarrow> Inr xs),
      df_setitem = setitem\<rparr>"

text \<open>
  A table of three rows with one column, and two answers of the fill-mask service as the
  parser returns them: one list of candidates per row, and a single list of candidates.
\<close>

definition example_df :: "(string \<times> pyval list) list" where
  "example_df =
     [(''text'', [PStr ''Paris is the [MASK] of France.'',
                  PStr ''The [MASK] is blue.'',
                  PStr ''I drink [MASK] every morning.''])]"

definition batched_response :: pyval where
  "batched_response =
     PList [PList [PDict [(''sequence'', PStr ''paris is the capital of france.''),
                          (''token_str'', PStr ''capital'')],
                   PDict [(''sequence'', PStr ''paris is the heart of france.''),
                          (''token_str'', PStr ''heart'')]],
            PList [PDict [(''sequence'', PStr ''the sky is blue.''),
                          (''token_str'', PStr ''sky'')]],
            PList [PDict [(''sequence'', PStr ''i drink coffee every morning.''),
                          (''token_str'', PStr ''coffee'')],
                   PDict [(''sequence'', PStr ''i drink tea every morning.''),
                          (''token_str'', PStr ''tea'')]]]"

definition flat_response :: pyval where
  "flat_response =
     PList [PDict [(''sequence'', PStr ''paris is the capital of france.''),
                   (''token_str'', PStr ''capital'')],
            PDict [(''sequence'', PStr ''paris is the heart of france.''),
                   (''token_str'', PStr ''heart'')]]"

text \<open>
  A library for the examples that never reach an answer: the network is down, and nothing
  is serialised, parsed or stored.
\<close>

definition silent_env :: "(string \<times> pyval list) list env" where
  "silent_env = example_env (\<lambda>v. []) (\<lambda>s. Inl JSONDecodeError) (\<lambda>h r. Inl RequestException)
                  (\<lambda>df k vs. Inl ValueError)"

section \<open>The dataframe\<close>

text \<open>
  The adapters are called with a pandas \<^verbatim>\<open>DataFrame\<close>. As far as they use it, a frame is the
  length of its index (the number of rows) and its columns in order, each holding one
  value per row.
\<close>

record dataframe =
  index_length :: nat
  columns :: "(string \<times> pyval list) list"

text \<open>\<^verbatim>\<open>df[column].tolist()\<close>: a label that is not a column raises \<^verbatim>\<open>KeyError\<close>.\<close>

definition pandas_getitem_tolist :: "dataframe \<Rightarrow> string \<Rightarrow> error + pyval list" where
  "pandas_getitem_tolist df column =
     (case map_of (columns df) column of None \<Rightarrow> Inl KeyError | Some xs \<Rightarrow> Inr xs)"

text \<open>A column is replaced where it stands; a new one goes last.\<close>

fun set_column ::
  "(string \<times> pyval list) list \<Rightarrow> string \<Rightarrow> pyval list \<Rightarrow> (string \<times> pyval list) list" where
  "set_column [] k vs = [(k, vs)]"
| "set_column ((k', vs') # cs) k vs =
     (if k' = k then (k, vs) # cs else (k', vs') # set_column cs k vs)"

text \<open>
  \<^verbatim>\<open>df[key] = values\<close> with a list. pandas compares the length of the list with the length
  of the index and raises \<^verbatim>\<open>ValueError\<close> when they differ. The one exception is a frame
  with no rows: a non-empty list then first gives the frame as many rows as the list has,
  the columns already there filled with \<^verbatim>\<open>NaN\<close>.
\<close>

definition pandas_setitem :: "dataframe \<Rightarrow> string \<Rightarrow> pyval list \<Rightarrow> error + dataframe" where
  "pandas_setitem df key vs =
     (if index_length df = 0 \<and> vs \<noteq> []
      then Inr \<lparr>index_length = length vs,
                columns = set_column
                  (map (\<lambda>(k, c). (k, replicate (length vs) (PFloat 0x7FF8000000000000)))
                     (columns df))
                  key vs\<rparr>
      else if length vs \<noteq> index_length df then Inl ValueError
      else Inr (df\<lparr>columns := set_column (columns df) key vs\<rparr>))"

text \<open>
  The library with pandas for its dataframes; the serialiser, the parser and the remote
  service are whatever the example passes, and bytes decode to themselves.
\<close>

definition pandas_env ::
  "(pyval \<Rightarrow> string) \<Rightarrow> (string \<Rightarrow> error + pyval) \<Rightarrow> (request list \<Rightarrow> request \<Rightarrow> error + response)
     \<Rightarrow> dataframe env" where
  "pandas_env dumps loads service =
     \<lparr>json_dumps = dumps, json_loads = loads, decode = Inr, requests_request = service,
      df_getitem_tolist = pandas_getitem_tolist, df_setitem = pandas_setitem\<rparr>"

text \<open>The table of three rows as a frame, and the same table cut down to its first row.\<close>

definition example_frame :: dataframe where
  "example_frame = \<lparr>index_length = 3, columns = example_df\<rparr>"

definition one_row_frame :: dataframe where
  "one_row_frame =
     \<lparr>index_length = 1, columns = [(''text'', [PStr ''Paris is the [MASK] of France.''])]\<rparr>"

section \<open>The client and its configuration as objects\<close>

text \<open>
  In Python \<^verbatim>\<open>self.config\<close> is a reference to the dict that
  \<^verbatim>\<open>ConfigParser().get_config_dict()\<close> returned, and its entry \<^verbatim>\<open>TASK_MODEL_MAP\<close> refers to a
  second dict. Both are dicts like any other: whoever holds the client can pass
  \<^verbatim>\<open>nlp.config\<close> or \<^verbatim>\<open>nlp.config['TASK_MODEL_MAP']\<close> to a method. The configuration dict
  is its \<^verbatim>\<open>BASE_URL\<close>, the address of the dict under \<^verbatim>\<open>TASK_MODEL_MAP\<close>, and whatever other
  entries it holds, in this order.
\<close>

record config_dict =
  base_url :: string
  task_model_map :: addr
  other_entries :: dict

text \<open>
  The objects a call runs on: the two attributes of \<^verbatim>\<open>self\<close>, the requests sent so far,
  and the store of all other dicts, the task-to-model map and the default of
  \<^verbatim>\<open>zero_shot_classification\<close> among them.
\<close>

record objects =
  self_api_token :: string
  self_config :: config_dict
  requests_sent :: "request list"
  dicts :: "addr \<Rightarrow> dict"

text \<open>
  \<^verbatim>\<open>NLP.__init__\<close>: the token is the argument, the configuration what the parser returned.
  The parser is not part of the sources; its result and the dicts that exist are given.
\<close>

definition NLP_init :: "string \<Rightarrow> config_dict \<Rightarrow> (addr \<Rightarrow> dict) \<Rightarrow> objects" where
  "NLP_init api_token_arg parsed store =
     \<lparr>self_api_token = api_token_arg, self_config = parsed, requests_sent = [], dicts = store\<rparr>"

text \<open>A reference to a dict: a dict of the store, or the configuration dict of the client.\<close>

datatype dict_ref = Dict addr | Config

text \<open>
  What the f-string of \<^verbatim>\<open>_query\<close> makes of a value: a string as it is, anything else through
  Python's \<^verbatim>\<open>str\<close>, which is given.
\<close>

fun format_value :: "(pyval \<Rightarrow> string) \<Rightarrow> pyval \<Rightarrow> string" where
  "format_value str (PStr s) = s"
| "format_value str v = str v"

text \<open>
  What the attributes of \<^verbatim>\<open>self\<close> read at a given moment: the token, the base URL, and
  for each task the formatted entry of the dict that \<^verbatim>\<open>TASK_MODEL_MAP\<close> refers to.
\<close>

definition read_client :: "(pyval \<Rightarrow> string) \<Rightarrow> objects \<Rightarrow> NLP" where
  "read_client str ps =
     \<lparr>api_token = self_api_token ps,
      config = \<lparr>BASE_URL = base_url (self_config ps),
                TASK_MODEL_MAP =
                  (\<lambda>t. map_option (format_value str)
                         (map_of (dicts ps (task_model_map (self_config ps))) t))\<rparr>\<rparr>"

text \<open>
  A method that takes its dicts by value, run on the objects: it reads the client as it is
  at the call, and what it leaves in the requests and in the store stays.
\<close>

definition run_method :: "(pyval \<Rightarrow> string) \<Rightarrow> (state \<Rightarrow> 'r \<times> state) \<Rightarrow> objects \<Rightarrow> 'r \<times> objects" where
  "run_method str f ps =
     (case f \<lparr>client = read_client str ps, sent = requests_sent ps, heap = dicts ps\<rparr> of
        (r, st') \<Rightarrow> (r, ps\<lparr>requests_sent := sent st', dicts := heap st'\<rparr>))"

text \<open>The entries of the dict a reference leads to, as \<^verbatim>\<open>json.dumps\<close> walks them.\<close>

definition deref :: "objects \<Rightarrow> dict_ref \<Rightarrow> dict" where
  "deref ps r =
     (case r of
        Dict a \<Rightarrow> dicts ps a
      | Config \<Rightarrow>
          (''BASE_URL'', PStr (base_url (self_config ps)))
            # (''TASK_MODEL_MAP'', PDict (dicts ps (task_model_map (self_config ps))))
            # other_entries (self_config ps))"

text \<open>
  \<^verbatim>\<open>parameters['candidate_labels'] = candidate_labels\<close> through a reference. The key is
  neither \<^verbatim>\<open>BASE_URL\<close> nor \<^verbatim>\<open>TASK_MODEL_MAP\<close>, so in the configuration dict it is one of the
  other entries.
\<close>

definition set_candidate_labels :: "objects \<Rightarrow> dict_ref \<Rightarrow> pyval \<Rightarrow> objects" where
  "set_candidate_labels ps r v =
     (case r of
        Dict a \<Rightarrow> ps\<lparr>dicts := (dicts ps)(a := dict_setitem (dicts ps a) ''candidate_labels'' v)\<rparr>
      | Config \<Rightarrow>
          ps\<lparr>self_config := (self_config ps)
                \<lparr>other_entries := dict_setitem (other_entries (self_config ps))
                                     ''candidate_labels'' v\<rparr>\<rparr>)"

text \<open>
  \<^verbatim>\<open>NLP.zero_shot_classification\<close> with \<^verbatim>\<open>parameters\<close> and \<^verbatim>\<open>options\<close> as references of
  this kind: the write goes through the reference, then the dispatcher runs on the objects
  as they are after it.
\<close>

definition zero_shot_classification_by_reference ::
  "(pyval \<Rightarrow> string) \<Rightarrow> 'df env \<Rightarrow> objects \<Rightarrow> pyval \<Rightarrow> pyval list \<Rightarrow> dict_ref option arg
     \<Rightarrow> dict_ref option \<Rightarrow> string option \<Rightarrow> (error + pyval) \<times> objects" where
  "zero_shot_classification_by_reference str env ps text candidate_labels parameters options model =
     (let parameters = (case parameters of
                          Omitted \<Rightarrow> Some (Dict default_parameters)
                        | Passed p \<Rightarrow> p)
      in case parameters of
           None \<Rightarrow> (Inl TypeError, ps)
         | Some r \<Rightarrow>
             (let ps' = set_candidate_labels ps r (PList candidate_labels)
              in run_method str
                   (\<lambda>st. query env st text (Some (deref ps' r)) (map_option (deref ps') options)
                           model (Some ''zero-shot-classification''))
                   ps'))"

text \<open>
  Two states of the objects with the same client and the same dicts: the token, the
  configuration dict and every dict of the store are equal. The requests sent may differ.
\<close>

definition same_client_and_dicts :: "objects \<Rightarrow> objects \<Rightarrow> bool" where
  "same_client_and_dicts ps ps' =
     (self_api_token ps' = self_api_token ps \<and> self_config ps' = self_config ps
        \<and> dicts ps' = dicts ps)"

text \<open>
  A client built from a configuration whose task-to-model map is the dict at address 1.
\<close>

definition example_objects :: objects where
  "example_objects =
     NLP_init ''hf_token''
       \<lparr>base_url = ''https://api.example/models'', task_model_map = 1, other_entries = []\<rparr>
       ((\<lambda>a. [])(1 := [(''fill-mask'', PStr ''bert-base-uncased''),
                         (''zero-shot-classification'', PStr ''bart-large-mnli'')]))"

section \<open>What a call of the dispatcher does\<close>

text \<open>The model of the URL: the argument when it is not \<^verbatim>\<open>None\<close>, or else the entry of the task.\<close>

lemma resolve_model:
  assumes "model = Some m \<or> (model = None \<and> task = Some t \<and> TASK_MODEL_MAP (config (client st)) t = Some m)"
  shows "(case model of
            Some m \<Rightarrow> Inr m
          | None \<Rightarrow>
              (case task of
                 None \<Rightarrow> Inl KeyError
               | Some t \<Rightarrow>
                   (case TASK_MODEL_MAP (config (client st)) t of
                      None \<Rightarrow> Inl KeyError
                    | Some m \<Rightarrow> Inr m))) = Inr m"
  using assms by auto

text \<open>The two assignments to \<^verbatim>\<open>data\<close> add keys that the dict does not have yet.\<close>

lemma body_keys:
  "(case options of
      None \<Rightarrow> (case parameters of
                 None \<Rightarrow> [(''inputs'', inputs)]
               | Some p \<Rightarrow> dict_setitem [(''inputs'', inputs)] ''parameters'' (PDict p))
    | Some q \<Rightarrow> dict_setitem (case parameters of
                 None \<Rightarrow> [(''inputs'', inputs)]
               | Some p \<Rightarrow> dict_setitem [(''inputs'', inputs)] ''parameters'' (PDict p))
               ''options'' (PDict q))
   = [(''inputs'', inputs)]
       @ (case parameters of None \<Rightarrow> [] | Some p \<Rightarrow> [(''parameters'', PDict p)])
       @ (case options of None \<Rightarrow> [] | Some p \<Rightarrow> [(''options'', PDict p)])"
  by (cases parameters; cases options; simp)

text \<open>With a model for the URL, the call makes one request and returns what the parser returns.\<close>

lemma query_resolved:
  assumes "model = Some m \<or> (model = None \<and> task = Some t \<and> TASK_MODEL_MAP (config (client st)) t = Some m)"
  shows "query env st inputs parameters options model task =
     (let req = \<lparr>http_method = ''POST'',
                 url = BASE_URL (config (client st)) @ ''/'' @ m,
                 headers = [(''Authorization'', ''Bearer '' @ api_token (client st))],
                 data = json_dumps env (PDict ([(''inputs'', inputs)]
                          @ (case parameters of None \<Rightarrow> [] | Some p \<Rightarrow> [(''parameters'', PDict p)])
                          @ (case options of None \<Rightarrow> [] | Some p \<Rightarrow> [(''options'', PDict p)])))\<rparr>
      in ((case requests_request env (sent st) req of
             Inl e \<Rightarrow> Inl e
           | Inr resp \<Rightarrow> (case decode env (content resp) of Inl e \<Rightarrow> Inl e | Inr s \<Rightarrow> json_loads env s)),
          st\<lparr>sent := sent st @ [req]\<rparr>))"
  unfolding query_def resolve_model[OF assms] Let_def body_keys
  by (simp split: sum.split)

text \<open>Without one, the lookup raises and nothing else happens.\<close>

lemma query_unresolved:
  assumes "model = None" and "task = None \<or> (\<exists>t. task = Some t \<and> TASK_MODEL_MAP (config (client st)) t = None)"
  shows "query env st inputs parameters options model task = (Inl KeyError, st)"
  using assms by (auto simp: query_def)

section \<open>The request body\<close>

text \<open>
  C1. Whenever the dispatcher gets as far as building a request (the model is given, or
  the task is a key of the map), the body it sends is the serialisation of the dict
  \<^verbatim>\<open>{"inputs": inputs}\<close>, followed by a \<^verbatim>\<open>"parameters"\<close> entry exactly when
  \<^verbatim>\<open>parameters\<close> is not \<^verbatim>\<open>None\<close> and by an \<^verbatim>\<open>"options"\<close> entry exactly when \<^verbatim>\<open>options\<close> is
  not \<^verbatim>\<open>None\<close>. A key whose argument is \<^verbatim>\<open>None\<close> is not in the dict at all: no entry
  holds \<^verbatim>\<open>None\<close> in its place. Exactly one body is added to the requests sent.
\<close>

theorem query_body_keys:
  assumes "model = Some m \<or> (model = None \<and> task = Some t \<and> TASK_MODEL_MAP (config (client st)) t = Some m)"
  shows "map data (sent (snd (query env st inputs parameters options model task))) =
         map data (sent st) @
           [json_dumps env (PDict ([(''inputs'', inputs)]
              @ (case parameters of None \<Rightarrow> [] | Some p \<Rightarrow> [(''parameters'', PDict p)])
              @ (case options of None \<Rightarrow> [] | Some p \<Rightarrow> [(''options'', PDict p)])))]"
  by (simp add: query_resolved[OF assms] Let_def)

text \<open>
  A fill-mask call with options and no parameters, for any serialiser: the body has the
  keys \<^verbatim>\<open>inputs\<close> and \<^verbatim>\<open>options\<close> only.
\<close>

theorem query_body_keys_witness:
  "\<forall>dumps loads service setitem.
     map data (sent (snd (query (example_env dumps loads service setitem) example_state
        (PStr ''Paris is the [MASK] of France.'') None (Some [(''wait_for_model'', PBool True)])
        None (Some ''fill-mask''))))
     = [dumps (PDict [(''inputs'', PStr ''Paris is the [MASK] of France.''),
                      (''options'', PDict [(''wait_for_model'', PBool True)])])]"
proof (intro allI)
  fix dumps loads service setitem
  have h: "None = Some ''bert-base-uncased'' \<or>
           ((None :: string option) = None \<and> Some ''fill-mask'' = Some ''fill-mask'' \<and>
            TASK_MODEL_MAP (config (client example_state)) ''fill-mask'' = Some ''bert-base-uncased'')"
    by (simp add: example_state_def example_client_def)
  show "map data (sent (snd (query (example_env dumps loads service setitem) example_state
        (PStr ''Paris is the [MASK] of France.'') None (Some [(''wait_for_model'', PBool True)])
        None (Some ''fill-mask''))))
     = [dumps (PDict [(''inputs'', PStr ''Paris is the [MASK] of France.''),
                      (''options'', PDict [(''wait_for_model'', PBool True)])])]"
    using query_body_keys[OF h, of "example_env dumps loads service setitem"
        "PStr ''Paris is the [MASK] of France.''" None "Some [(''wait_for_model'', PBool True)]"]
    by (simp add: example_state_def example_env_def)
qed

section \<open>The model and the URL\<close>

text \<open>
  C4. A call with no model (\<^verbatim>\<open>model\<close> is \<^verbatim>\<open>None\<close>) and a task that is not a key of the
  task-to-model map (or no task at all) ends with \<^verbatim>\<open>KeyError\<close>, and the state is the one
  the call started in: no request has been handed to \<^verbatim>\<open>requests.request\<close>.
\<close>

theorem query_lookup_error:
  assumes "model = None"
      and "task = None \<or> (\<exists>t. task = Some t \<and> TASK_MODEL_MAP (config (client st)) t = None)"
  shows "query env st inputs parameters options model task = (Inl KeyError, st)"
proof (cases task)
  case None
  with assms(1) show ?thesis by (simp add: query_def)
next
  case (Some t)
  with assms(2) have "TASK_MODEL_MAP (config (client st)) t = None" by simp
  with Some assms(1) show ?thesis by (simp add: query_def)
qed

text \<open>The example configuration has no \<^verbatim>\<open>translation\<close> task.\<close>

theorem query_lookup_error_witness:
  "\<forall>dumps loads service setitem.
     query (example_env dumps loads service setitem) example_state (PStr ''Bonjour'') None None None
       (Some ''translation'') = (Inl KeyError, example_state)
   \<and> query (example_env dumps loads service setitem) example_state (PStr ''Bonjour'') None None None
       None = (Inl KeyError, example_state)"
proof (intro allI conjI)
  fix dumps loads service setitem
  have h: "Some ''translation'' = None \<or>
     (\<exists>t. Some ''translation'' = Some t \<and> TASK_MODEL_MAP (config (client example_state)) t = None)"
    by (simp add: example_state_def example_client_def)
  show "query (example_env dumps loads service setitem) example_state (PStr ''Bonjour'') None None None
       (Some ''translation'') = (Inl KeyError, example_state)"
    using query_lookup_error[OF refl h] .
  have h': "(None :: string option) = None \<or>
     (\<exists>t. None = Some t \<and> TASK_MODEL_MAP (config (client example_state)) t = None)"
    by simp
  show "query (example_env dumps loads service setitem) example_state (PStr ''Bonjour'') None None None
       None = (Inl KeyError, example_state)"
    using query_lookup_error[OF refl h'] .
qed

text \<open>
  C2, as the code has it. When \<^verbatim>\<open>model\<close> is not \<^verbatim>\<open>None\<close>, the URL of the request is
  \<^verbatim>\<open>BASE_URL + "/" + model\<close>, whatever \<^verbatim>\<open>task\<close> is and also when \<^verbatim>\<open>model\<close> is the empty
  string; when \<^verbatim>\<open>model\<close> is \<^verbatim>\<open>None\<close> and the task is a key of the map, the URL is
  \<^verbatim>\<open>BASE_URL + "/" + TASK_MODEL_MAP[task]\<close>.
\<close>

theorem query_url:
  assumes "model = Some m \<or> (model = None \<and> task = Some t \<and> TASK_MODEL_MAP (config (client st)) t = Some m)"
  shows "map url (sent (snd (query env st inputs parameters options model task))) =
         map url (sent st) @ [BASE_URL (config (client st)) @ ''/'' @ m]"
  by (simp add: query_resolved[OF assms] Let_def)

text \<open>A given model, an empty model and no model, each with the task \<^verbatim>\<open>summarization\<close>.\<close>

theorem query_url_witness:
  "\<forall>dumps loads service setitem.
     map url (sent (snd (query (example_env dumps loads service setitem) example_state
        (PStr ''The tower is 324 metres tall.'') None None (Some ''t5-small'') (Some ''summarization''))))
       = [''https://api.example/models/t5-small'']
   \<and> map url (sent (snd (query (example_env dumps loads service setitem) example_state
        (PStr ''The tower is 324 metres tall.'') None None (Some '''') (Some ''summarization''))))
       = [''https://api.example/models/'']
   \<and> map url (sent (snd (query (example_env dumps loads service setitem) example_state
        (PStr ''The tower is 324 metres tall.'') None None None (Some ''summarization''))))
       = [''https://api.example/models/bart-large-cnn'']"
proof (intro allI conjI)
  fix dumps loads service setitem
  let ?env = "example_env dumps loads service setitem"
  let ?text = "PStr ''The tower is 324 metres tall.''"
  have given: "Some m = Some m \<or>
     (Some m = None \<and> Some ''summarization'' = Some ''summarization''
        \<and> TASK_MODEL_MAP (config (client example_state)) ''summarization'' = Some m)" for m :: string
    by simp
  show "map url (sent (snd (query ?env example_state ?text None None (Some ''t5-small'')
          (Some ''summarization'')))) = [''https://api.example/models/t5-small'']"
    using query_url[OF given[of "''t5-small''"], of ?env ?text None None]
    by (simp add: example_state_def example_client_def)
  show "map url (sent (snd (query ?env example_state ?text None None (Some '''')
          (Some ''summarization'')))) = [''https://api.example/models/'']"
    using query_url[OF given[of "''''"], of ?env ?text None None]
    by (simp add: example_state_def example_client_def)
  have looked_up: "None = Some ''bart-large-cnn'' \<or>
     ((None :: string option) = None \<and> Some ''summarization'' = Some ''summarization''
        \<and> TASK_MODEL_MAP (config (client example_state)) ''summarization'' = Some ''bart-large-cnn'')"
    by (simp add: example_state_def example_client_def)
  show "map url (sent (snd (query ?env example_state ?text None None None
          (Some ''summarization'')))) = [''https://api.example/models/bart-large-cnn'']"
    using query_url[OF looked_up, of ?env ?text None None]
    by (simp add: example_state_def example_client_def)
qed

text \<open>
  C2 as stated fails for the empty model: the test in the code is \<^verbatim>\<open>model is not None\<close>, so
  the empty string is used as it is and the task's default model is not looked up.
\<close>

theorem query_empty_model_counterexample:
  "map url (sent (snd (query silent_env example_state (PStr ''The tower is 324 metres tall.'')
      None None (Some '''') (Some ''summarization''))))
     = [''https://api.example/models/'']
   \<and> TASK_MODEL_MAP (config (client example_state)) ''summarization'' = Some ''bart-large-cnn''
   \<and> map url (sent (snd (query silent_env example_state (PStr ''The tower is 324 metres tall.'')
      None None (Some '''') (Some ''summarization''))))
     \<noteq> [BASE_URL (config (client example_state)) @ ''/'' @ ''bart-large-cnn'']"
  by (simp add: query_def silent_env_def example_env_def example_state_def example_client_def)

section \<open>The request\<close>

text \<open>
  C8, as the code has it. A call that resolves a model hands exactly one request to
  \<^verbatim>\<open>requests.request\<close>: a \<^verbatim>\<open>POST\<close> to the resolved URL whose headers are the single header
  \<^verbatim>\<open>Authorization: Bearer <api_token>\<close>, with the serialised dict as its body. The client
  sets no other header.
\<close>

theorem query_single_post:
  assumes "model = Some m \<or> (model = None \<and> task = Some t \<and> TASK_MODEL_MAP (config (client st)) t = Some m)"
  shows "sent (snd (query env st inputs parameters options model task)) =
         sent st @
           [\<lparr>http_method = ''POST'',
             url = BASE_URL (config (client st)) @ ''/'' @ m,
             headers = [(''Authorization'', ''Bearer '' @ api_token (client st))],
             data = json_dumps env (PDict ([(''inputs'', inputs)]
                      @ (case parameters of None \<Rightarrow> [] | Some p \<Rightarrow> [(''parameters'', PDict p)])
                      @ (case options of None \<Rightarrow> [] | Some p \<Rightarrow> [(''options'', PDict p)])))\<rparr>]"
  by (simp add: query_resolved[OF assms] Let_def)

text \<open>A text-generation call with parameters and an explicit model.\<close>

theorem query_single_post_witness:
  "\<forall>dumps loads service setitem.
     sent (snd (query (example_env dumps loads service setitem) example_state
        (PStr ''The answer to the universe is'') (Some [(''max_new_tokens'', PInt 20)]) None
        (Some ''gpt2'') (Some ''text-generation'')))
       = [\<lparr>http_method = ''POST'', url = ''https://api.example/models/gpt2'',
            headers = [(''Authorization'', ''Bearer hf_token'')],
            data = dumps (PDict [(''inputs'', PStr ''The answer to the universe is''),
                                 (''parameters'', PDict [(''max_new_tokens'', PInt 20)])])\<rparr>]"
proof (intro allI)
  fix dumps loads service setitem
  let ?env = "example_env dumps loads service setitem"
  have given: "Some ''gpt2'' = Some ''gpt2'' \<or>
     (Some ''gpt2'' = None \<and> Some ''text-generation'' = Some ''text-generation''
        \<and> TASK_MODEL_MAP (config (client example_state)) ''text-generation'' = Some ''gpt2'')"
    by simp
  show "sent (snd (query ?env example_state
        (PStr ''The answer to the universe is'') (Some [(''max_new_tokens'', PInt 20)]) None
        (Some ''gpt2'') (Some ''text-generation'')))
       = [\<lparr>http_method = ''POST'', url = ''https://api.example/models/gpt2'',
            headers = [(''Authorization'', ''Bearer hf_token'')],
            data = dumps (PDict [(''inputs'', PStr ''The answer to the universe is''),
                                 (''parameters'', PDict [(''max_new_tokens'', PInt 20)])])\<rparr>]"
    using query_single_post[OF given, of ?env "PStr ''The answer to the universe is''"
        "Some [(''max_new_tokens'', PInt 20)]" None]
    by (simp add: example_state_def example_client_def example_env_def)
qed

text \<open>
  C8 as stated asks for a header implying JSON content. The headers of the request are the
  \<^verbatim>\<open>Authorization\<close> header alone: the body goes out through \<^verbatim>\<open>data=\<close>, and no content
  type is named.
\<close>

theorem query_headers_counterexample:
  "map headers (sent (snd (query silent_env example_state (PStr ''The answer to the universe is'')
      None None (Some ''gpt2'') (Some ''text-generation''))))
     = [[(''Authorization'', ''Bearer hf_token'')]]
   \<and> map (map fst \<circ> headers) (sent (snd (query silent_env example_state
      (PStr ''The answer to the universe is'') None None (Some ''gpt2'') (Some ''text-generation''))))
     = [[''Authorization'']]"
  by (simp add: query_def silent_env_def example_env_def example_state_def example_client_def)

section \<open>The response\<close>

text \<open>
  C3. When the service answers the request with a response, whatever its status code,
  and the bytes of its body decode to the text \<^verbatim>\<open>s\<close>, the dispatcher returns exactly what
  \<^verbatim>\<open>json.loads(s)\<close> returns: the parsed value as it is, or the parser's exception. Nothing
  in between looks at the status code or at the value.
\<close>

theorem query_returns_parsed_body:
  assumes "model = Some m \<or> (model = None \<and> task = Some t \<and> TASK_MODEL_MAP (config (client st)) t = Some m)"
      and "requests_request env (sent st)
             (last (sent (snd (query env st inputs parameters options model task)))) = Inr resp"
      and "decode env (content resp) = Inr s"
  shows "fst (query env st inputs parameters options model task) = json_loads env s"
proof -
  note q = query_resolved[OF assms(1), of env inputs parameters options]
  from assms(2) have "requests_request env (sent st)
       \<lparr>http_method = ''POST'',
        url = BASE_URL (config (client st)) @ ''/'' @ m,
        headers = [(''Authorization'', ''Bearer '' @ api_token (client st))],
        data = json_dumps env (PDict ([(''inputs'', inputs)]
                 @ (case parameters of None \<Rightarrow> [] | Some p \<Rightarrow> [(''parameters'', PDict p)])
                 @ (case options of None \<Rightarrow> [] | Some p \<Rightarrow> [(''options'', PDict p)])))\<rparr>
     = Inr resp"
    by (simp add: q Let_def)
  with assms(3) show ?thesis
    by (simp add: q Let_def)
qed

text \<open>
  The service answers 503 with an error object: the call returns what the parser makes of
  that body, for any parser.
\<close>

theorem query_returns_parsed_body_witness:
  "\<forall>dumps loads setitem.
     fst (query (example_env dumps loads
                   (\<lambda>h r. Inr \<lparr>status_code = 503, content = ''{\"error\": \"Model is loading\"}''\<rparr>)
                   setitem)
            example_state (PStr ''Paris is the [MASK] of France.'') None None None (Some ''fill-mask''))
       = loads ''{\"error\": \"Model is loading\"}''"
proof (intro allI)
  fix dumps loads setitem
  let ?env = "example_env dumps loads
                (\<lambda>h r. Inr \<lparr>status_code = 503, content = ''{\"error\": \"Model is loading\"}''\<rparr>)
                setitem"
  have looked_up: "None = Some ''bert-base-uncased'' \<or>
     ((None :: string option) = None \<and> Some ''fill-mask'' = Some ''fill-mask''
        \<and> TASK_MODEL_MAP (config (client example_state)) ''fill-mask'' = Some ''bert-base-uncased'')"
    by (simp add: example_state_def example_client_def)
  have answered: "requests_request ?env (sent example_state)
       (last (sent (snd (query ?env example_state (PStr ''Paris is the [MASK] of France.'') None None
          None (Some ''fill-mask'')))))
     = Inr \<lparr>status_code = 503, content = ''{\"error\": \"Model is loading\"}''\<rparr>"
    by (simp add: example_env_def)
  have decoded: "decode ?env (content \<lparr>status_code = 503, content = ''{\"error\": \"Model is loading\"}''\<rparr>)
     = Inr ''{\"error\": \"Model is loading\"}''"
    by (simp add: example_env_def)
  show "fst (query ?env example_state (PStr ''Paris is the [MASK] of France.'') None None None
          (Some ''fill-mask'')) = loads ''{\"error\": \"Model is loading\"}''"
    using query_returns_parsed_body[OF looked_up answered decoded]
    by (simp add: example_env_def)
qed

section \<open>What a call leaves behind\<close>

text \<open>The dispatcher changes the state in one way only: it adds to the requests sent.\<close>

lemma query_state:
  "\<exists>reqs. snd (query env st inputs parameters options model task) = st\<lparr>sent := sent st @ reqs\<rparr>"
proof (cases "model = None \<and> (task = None \<or> (\<exists>t. task = Some t \<and> TASK_MODEL_MAP (config (client st)) t = None))")
  case True
  then have "query env st inputs parameters options model task = (Inl KeyError, st)"
    by (intro query_unresolved) simp_all
  then have "snd (query env st inputs parameters options model task) = st\<lparr>sent := sent st @ []\<rparr>"
    by simp
  then show ?thesis ..
next
  case False
  then obtain m t where
    "model = Some m \<or> (model = None \<and> task = Some t \<and> TASK_MODEL_MAP (config (client st)) t = Some m)"
    by (cases model; cases task) auto
  from query_resolved[OF this, of env inputs parameters options]
  obtain req where "snd (query env st inputs parameters options model task) = st\<lparr>sent := sent st @ [req]\<rparr>"
    by (simp add: Let_def)
  then show ?thesis ..
qed

lemma query_client [simp]:
  "client (snd (query env st inputs parameters options model task)) = client st"
  using query_state[of env st inputs parameters options model task] by auto

lemma query_heap [simp]:
  "heap (snd (query env st inputs parameters options model task)) = heap st"
  using query_state[of env st inputs parameters options model task] by auto

lemma query_in_df_client [simp]:
  "client (snd (query_in_df env st df column parameters options model task)) = client st"
  by (cases "df_getitem_tolist env df column") (simp_all add: query_in_df_def)

lemma query_in_df_heap [simp]:
  "heap (snd (query_in_df env st df column parameters options model task)) = heap st"
  by (cases "df_getitem_tolist env df column") (simp_all add: query_in_df_def)

text \<open>An adapter leaves the state as its call of the dispatcher left it.\<close>

lemma fill_mask_in_df_state:
  "snd (fill_mask_in_df env st df column options model) =
   snd (query_in_df env st df column None options model (Some ''fill-mask''))"
  by (simp add: fill_mask_in_df_def split: prod.split sum.split)

lemma summarization_in_df_state:
  "snd (summarization_in_df env st df column parameters options model) =
   snd (query_in_df env st df column None options model (Some ''summarization''))"
  by (simp add: summarization_in_df_def split: prod.split sum.split)

lemma text_classification_in_df_state:
  "snd (text_classification_in_df env st df column options model) =
   snd (query_in_df env st df column None options model (Some ''text-classification''))"
  by (simp add: text_classification_in_df_def split: prod.split sum.split)

lemma zero_shot_classification_client:
  "client (snd (zero_shot_classification env st text candidate_labels parameters options model))
     = client st"
  by (simp add: zero_shot_classification_def Let_def split: arg.split option.split)

section \<open>Zero-shot classification and the dict of its parameters\<close>

text \<open>After \<^verbatim>\<open>d[k] = v\<close> the dict \<^verbatim>\<open>d\<close> has \<^verbatim>\<open>v\<close> under \<^verbatim>\<open>k\<close>.\<close>

lemma map_of_dict_setitem [simp]: "map_of (dict_setitem d k v) k = Some v"
  by (induction d) auto

text \<open>
  With a dict passed, the method writes the labels into that dict in the store and calls
  the dispatcher with the dicts as they are then.
\<close>

lemma zero_shot_classification_passed:
  "zero_shot_classification env st text candidate_labels (Passed (Some a)) options model =
     query env
       (st\<lparr>heap := (heap st)(a := dict_setitem (heap st a) ''candidate_labels'' (PList candidate_labels))\<rparr>)
       text
       (Some (dict_setitem (heap st a) ''candidate_labels'' (PList candidate_labels)))
       (map_option ((heap st)(a := dict_setitem (heap st a) ''candidate_labels'' (PList candidate_labels)))
          options)
       model (Some ''zero-shot-classification'')"
  by (simp add: zero_shot_classification_def Let_def)

text \<open>With \<^verbatim>\<open>parameters\<close> left out, the dict is the default object.\<close>

lemma zero_shot_classification_omitted:
  "zero_shot_classification env st text candidate_labels Omitted options model =
   zero_shot_classification env st text candidate_labels (Passed (Some default_parameters)) options model"
  by (simp add: zero_shot_classification_def)

text \<open>
  C6. A call with a dict passed as \<^verbatim>\<open>parameters\<close> changes that dict in place, and only
  that dict: after the call it holds the given list under \<^verbatim>\<open>candidate_labels\<close> and its
  other entries as before; this holds whether or not a request is then made. When a model
  is resolved, the body sent has that dict, with the labels in it, under
  \<^verbatim>\<open>parameters\<close>. When \<^verbatim>\<open>parameters\<close> is left out, the dict is the function's default,
  which starts empty and into which this method writes nothing but \<^verbatim>\<open>candidate_labels\<close>:
  as long as it is empty or holds that key alone, the body's \<^verbatim>\<open>parameters\<close> are exactly
  \<^verbatim>\<open>{"candidate_labels": candidate_labels}\<close>, and the default is left in that shape again.
\<close>

theorem zero_shot_classification_candidate_labels:
  "(let st' = snd (zero_shot_classification env st text candidate_labels (Passed (Some a))
                     options model)
    in heap st' = (heap st)
           (a := dict_setitem (heap st a) ''candidate_labels'' (PList candidate_labels))
     \<and> map_of (heap st' a) ''candidate_labels'' = Some (PList candidate_labels)
     \<and> (model = Some m \<or>
         (model = None \<and> TASK_MODEL_MAP (config (client st)) ''zero-shot-classification'' = Some m)
        \<longrightarrow> map data (sent st') = map data (sent st) @
              [json_dumps env (PDict ([(''inputs'', text), (''parameters'', PDict (heap st' a))]
                 @ (case options of None \<Rightarrow> [] | Some b \<Rightarrow> [(''options'', PDict (heap st' b))])))]))
   \<and> (let st' = snd (zero_shot_classification env st text candidate_labels Omitted options model)
      in heap st default_parameters = [] \<or> heap st default_parameters = [(''candidate_labels'', old)]
         \<longrightarrow> heap st' default_parameters = [(''candidate_labels'', PList candidate_labels)]
           \<and> (model = Some m \<or>
               (model = None
                  \<and> TASK_MODEL_MAP (config (client st)) ''zero-shot-classification'' = Some m)
              \<longrightarrow> map data (sent st') = map data (sent st) @
                    [json_dumps env (PDict ([(''inputs'', text),
                         (''parameters'', PDict [(''candidate_labels'', PList candidate_labels)])]
                       @ (case options of
                            None \<Rightarrow> []
                          | Some b \<Rightarrow> [(''options'', PDict (heap st' b))])))]))"
proof -
  let ?written = "\<lambda>a. (heap st)
      (a := dict_setitem (heap st a) ''candidate_labels'' (PList candidate_labels))"
  have store: "heap (snd (zero_shot_classification env st text candidate_labels (Passed (Some a))
      options model)) = ?written a" for a
    by (simp add: zero_shot_classification_passed)
  have body: "map data (sent (snd (zero_shot_classification env st text candidate_labels
        (Passed (Some a)) options model)))
      = map data (sent st) @
          [json_dumps env (PDict ([(''inputs'', text), (''parameters'', PDict (?written a a))]
             @ (case options of None \<Rightarrow> [] | Some b \<Rightarrow> [(''options'', PDict (?written a b))])))]"
    if "model = Some m \<or>
        (model = None \<and> TASK_MODEL_MAP (config (client st)) ''zero-shot-classification'' = Some m)"
    for a
  proof -
    from that have r: "model = Some m \<or>
       (model = None \<and> Some ''zero-shot-classification'' = Some ''zero-shot-classification''
          \<and> TASK_MODEL_MAP (config (client (st\<lparr>heap := ?written a\<rparr>)))
                ''zero-shot-classification'' = Some m)"
      by simp
    show ?thesis
      unfolding zero_shot_classification_passed
      by (cases options) (simp_all add: query_resolved[OF r] Let_def)
  qed
  have passed: "let st' = snd (zero_shot_classification env st text candidate_labels (Passed (Some a))
                     options model)
    in heap st' = ?written a
     \<and> map_of (heap st' a) ''candidate_labels'' = Some (PList candidate_labels)
     \<and> (model = Some m \<or>
         (model = None \<and> TASK_MODEL_MAP (config (client st)) ''zero-shot-classification'' = Some m)
        \<longrightarrow> map data (sent st') = map data (sent st) @
              [json_dumps env (PDict ([(''inputs'', text), (''parameters'', PDict (heap st' a))]
                 @ (case options of None \<Rightarrow> [] | Some b \<Rightarrow> [(''options'', PDict (heap st' b))])))])"
    unfolding Let_def store using body[of a] by simp
  have omitted: "let st' = snd (zero_shot_classification env st text candidate_labels Omitted options model)
      in heap st default_parameters = [] \<or> heap st default_parameters = [(''candidate_labels'', old)]
         \<longrightarrow> heap st' default_parameters = [(''candidate_labels'', PList candidate_labels)]
           \<and> (model = Some m \<or>
               (model = None
                  \<and> TASK_MODEL_MAP (config (client st)) ''zero-shot-classification'' = Some m)
              \<longrightarrow> map data (sent st') = map data (sent st) @
                    [json_dumps env (PDict ([(''inputs'', text),
                         (''parameters'', PDict [(''candidate_labels'', PList candidate_labels)])]
                       @ (case options of
                            None \<Rightarrow> []
                          | Some b \<Rightarrow> [(''options'', PDict (heap st' b))])))])"
  proof -
    have d: "dict_setitem (heap st default_parameters) ''candidate_labels''
        (PList candidate_labels) = [(''candidate_labels'', PList candidate_labels)]"
      if "heap st default_parameters = [] \<or> heap st default_parameters = [(''candidate_labels'', old)]"
      using that by auto
    show ?thesis
      unfolding Let_def zero_shot_classification_omitted store
      using body[of default_parameters] d by simp
  qed
  from passed omitted show ?thesis by (rule conjI)
qed

text \<open>
  The caller's dict, at address 1, holds \<^verbatim>\<open>multi_label\<close>; the labels are \<^verbatim>\<open>["a", "b"]\<close>.
  The third line is the call without \<^verbatim>\<open>parameters\<close>.
\<close>

theorem zero_shot_classification_candidate_labels_witness:
  "\<forall>dumps loads service setitem.
     heap (snd (zero_shot_classification (example_env dumps loads service setitem)
                  (example_state\<lparr>heap := (heap example_state)(1 := [(''multi_label'', PBool True)])\<rparr>)
                  (PStr ''I would like to get reimbursed!'') [PStr ''a'', PStr ''b'']
                  (Passed (Some 1)) None None)) 1
       = [(''multi_label'', PBool True), (''candidate_labels'', PList [PStr ''a'', PStr ''b''])]
   \<and> map data (sent (snd (zero_shot_classification (example_env dumps loads service setitem)
                  (example_state\<lparr>heap := (heap example_state)(1 := [(''multi_label'', PBool True)])\<rparr>)
                  (PStr ''I would like to get reimbursed!'') [PStr ''a'', PStr ''b'']
                  (Passed (Some 1)) None None)))
       = [dumps (PDict [(''inputs'', PStr ''I would like to get reimbursed!''),
                        (''parameters'', PDict [(''multi_label'', PBool True),
                                                (''candidate_labels'', PList [PStr ''a'', PStr ''b''])])])]
   \<and> map data (sent (snd (zero_shot_classification (example_env dumps loads service setitem)
                  (example_state\<lparr>heap := (heap example_state)(1 := [(''multi_label'', PBool True)])\<rparr>)
                  (PStr ''I would like to get reimbursed!'') [PStr ''a'', PStr ''b'']
                  Omitted None None)))
       = [dumps (PDict [(''inputs'', PStr ''I would like to get reimbursed!''),
                        (''parameters'', PDict [(''candidate_labels'', PList [PStr ''a'', PStr ''b''])])])]"
proof (intro allI)
  fix dumps loads service setitem
  let ?env = "example_env dumps loads service setitem"
  let ?st = "example_state\<lparr>heap := (heap example_state)(1 := [(''multi_label'', PBool True)])\<rparr>"
  show "heap (snd (zero_shot_classification ?env ?st
                  (PStr ''I would like to get reimbursed!'') [PStr ''a'', PStr ''b'']
                  (Passed (Some 1)) None None)) 1
       = [(''multi_label'', PBool True), (''candidate_labels'', PList [PStr ''a'', PStr ''b''])]
   \<and> map data (sent (snd (zero_shot_classification ?env ?st
                  (PStr ''I would like to get reimbursed!'') [PStr ''a'', PStr ''b'']
                  (Passed (Some 1)) None None)))
       = [dumps (PDict [(''inputs'', PStr ''I would like to get reimbursed!''),
                        (''parameters'', PDict [(''multi_label'', PBool True),
                                                (''candidate_labels'', PList [PStr ''a'', PStr ''b''])])])]
   \<and> map data (sent (snd (zero_shot_classification ?env ?st
                  (PStr ''I would like to get reimbursed!'') [PStr ''a'', PStr ''b'']
                  Omitted None None)))
       = [dumps (PDict [(''inputs'', PStr ''I would like to get reimbursed!''),
                        (''parameters'', PDict [(''candidate_labels'', PList [PStr ''a'', PStr ''b''])])])]"
    using zero_shot_classification_candidate_labels[of ?env ?st
        "PStr ''I would like to get reimbursed!''" "[PStr ''a'', PStr ''b'']" 1 None None
        "''bart-large-mnli''" PNone]
    by (simp add: Let_def example_state_def example_client_def example_env_def default_parameters_def)
qed

text \<open>
  C10. A call with \<^verbatim>\<open>parameters=None\<close> passed explicitly ends with \<^verbatim>\<open>TypeError\<close> in the
  state it started in: no dict is created or changed, no body is built and no request is
  sent. A call that leaves \<^verbatim>\<open>parameters\<close> out writes the labels into the one default dict of
  the function, which keeps them after the call: it is the call with that object passed.
\<close>

theorem zero_shot_classification_parameters_none:
  "zero_shot_classification env st text candidate_labels (Passed None) options model
     = (Inl TypeError, st)
   \<and> heap (snd (zero_shot_classification env st text candidate_labels Omitted options model))
       default_parameters
     = dict_setitem (heap st default_parameters) ''candidate_labels'' (PList candidate_labels)
   \<and> zero_shot_classification env st text candidate_labels Omitted options model
     = zero_shot_classification env st text candidate_labels (Passed (Some default_parameters))
         options model"
proof (intro conjI)
  show "zero_shot_classification env st text candidate_labels (Passed None) options model
     = (Inl TypeError, st)"
    by (simp add: zero_shot_classification_def)
  show "heap (snd (zero_shot_classification env st text candidate_labels Omitted options model))
       default_parameters
     = dict_setitem (heap st default_parameters) ''candidate_labels'' (PList candidate_labels)"
    by (simp add: zero_shot_classification_omitted zero_shot_classification_passed)
  show "zero_shot_classification env st text candidate_labels Omitted options model
     = zero_shot_classification env st text candidate_labels (Passed (Some default_parameters))
         options model"
    by (rule zero_shot_classification_omitted)
qed

text \<open>Both calls on the client of the examples, before anything was sent.\<close>

theorem zero_shot_classification_parameters_none_witness:
  "\<forall>dumps loads service setitem.
     zero_shot_classification (example_env dumps loads service setitem) example_state
       (PStr ''I would like to get reimbursed!'') [PStr ''refund'', PStr ''legal'', PStr ''faq'']
       (Passed None) None None = (Inl TypeError, example_state)
   \<and> heap (snd (zero_shot_classification (example_env dumps loads service setitem) example_state
       (PStr ''I would like to get reimbursed!'') [PStr ''refund'', PStr ''legal'', PStr ''faq'']
       Omitted None None)) default_parameters
     = [(''candidate_labels'', PList [PStr ''refund'', PStr ''legal'', PStr ''faq''])]"
proof (intro allI)
  fix dumps loads service setitem
  show "zero_shot_classification (example_env dumps loads service setitem) example_state
       (PStr ''I would like to get reimbursed!'') [PStr ''refund'', PStr ''legal'', PStr ''faq'']
       (Passed None) None None = (Inl TypeError, example_state)
   \<and> heap (snd (zero_shot_classification (example_env dumps loads service setitem) example_state
       (PStr ''I would like to get reimbursed!'') [PStr ''refund'', PStr ''legal'', PStr ''faq'']
       Omitted None None)) default_parameters
     = [(''candidate_labels'', PList [PStr ''refund'', PStr ''legal'', PStr ''faq''])]"
  proof -
    note t = zero_shot_classification_parameters_none[of "example_env dumps loads service setitem"
        example_state "PStr ''I would like to get reimbursed!''"
        "[PStr ''refund'', PStr ''legal'', PStr ''faq'']" None None]
    from conjunct1[OF t] conjunct1[OF conjunct2[OF t]] show ?thesis
      by (simp add: example_state_def)
  qed
qed

section \<open>What the tabular adapters write\<close>

text \<open>A comprehension none of whose elements raises is a \<^verbatim>\<open>map\<close>.\<close>

lemma comprehension_map:
  assumes "\<And>y. y \<in> set ys \<Longrightarrow> f (h y) = Inr (g y)"
  shows "comprehension f (map h ys) = Inr (map g ys)"
  using assms by (induction ys) simp_all

text \<open>
  What \<^verbatim>\<open>fill_mask_in_df\<close> hands to the column assignment, whatever the dataframe library
  is: one \<^verbatim>\<open>sequence\<close> per row of a batched response, a single one for a flat response.
\<close>

lemma fill_mask_in_df_assigns:
  assumes "query_in_df env st df column None options model (Some ''fill-mask'') = (Inr predictions, st')"
  shows "(predictions = PList (map (\<lambda>(s, d, cs). PList (PDict d # cs)) rows) \<and> rows \<noteq> []
            \<and> (\<forall>(s, d, cs) \<in> set rows. map_of d ''sequence'' = Some s)
          \<longrightarrow> fill_mask_in_df env st df column options model
                = (df_setitem env df ''predictions'' (map (\<lambda>(s, d, cs). s) rows), st')
              \<and> length (map (\<lambda>(s, d, cs). s) rows) = length rows)
       \<and> (predictions = PList (PDict d # rest) \<and> \<not> list_ex isinstance_list rest
            \<and> map_of d ''sequence'' = Some s
          \<longrightarrow> fill_mask_in_df env st df column options model
                = (df_setitem env df ''predictions'' [s], st'))"
proof (rule conjI; rule impI)
  assume b: "predictions = PList (map (\<lambda>(s, d, cs). PList (PDict d # cs)) rows) \<and> rows \<noteq> []
            \<and> (\<forall>(s, d, cs) \<in> set rows. map_of d ''sequence'' = Some s)"
  let ?h = "\<lambda>(s, d, cs). PList (PDict d # cs)"
  let ?f = "\<lambda>prediction. case getitem_0 prediction of
                             Inl e \<Rightarrow> Inl e
                           | Inr c \<Rightarrow> getitem_str c ''sequence''"
  from b obtain r rs where "rows = r # rs" by (cases rows) auto
  then have some_list: "list_ex isinstance_list (map ?h rows)"
    by (cases r) simp
  have "?f (?h y) = Inr ((\<lambda>(s, d, cs). s) y)" if "y \<in> set rows" for y
    using that b by (cases y) auto
  then have written: "comprehension ?f (map ?h rows) = Inr (map (\<lambda>(s, d, cs). s) rows)"
    by (rule comprehension_map)
  from b have p: "predictions = PList (map ?h rows)" by simp
  show "fill_mask_in_df env st df column options model
                = (df_setitem env df ''predictions'' (map (\<lambda>(s, d, cs). s) rows), st')
              \<and> length (map (\<lambda>(s, d, cs). s) rows) = length rows"
    unfolding fill_mask_in_df_def assms p
    using some_list written by simp
next
  assume f: "predictions = PList (PDict d # rest) \<and> \<not> list_ex isinstance_list rest
            \<and> map_of d ''sequence'' = Some s"
  then have p: "predictions = PList (PDict d # rest)" by simp
  show "fill_mask_in_df env st df column options model
                = (df_setitem env df ''predictions'' [s], st')"
    unfolding fill_mask_in_df_def assms p
    using f by simp
qed

text \<open>The column just assigned is the one read back under its label.\<close>

lemma map_of_set_column [simp]: "map_of (set_column cs k vs) k = Some vs"
  by (induction cs) auto




text \<open>
  C5 asks that \<^verbatim>\<open>summarization_in_df\<close> forwards its \<^verbatim>\<open>parameters\<close>. It does not: called
  on the table of the examples with \<^verbatim>\<open>parameters = {"max_length": 20}\<close>, the body it sends
  has the key \<^verbatim>\<open>inputs\<close> alone, and in general the call is the call with
  \<^verbatim>\<open>parameters = None\<close>.
\<close>

theorem summarization_in_df_drops_parameters:
  "map data (sent (snd (summarization_in_df (example_env dumps loads service setitem) example_state
      example_df ''text'' (Some [(''max_length'', PInt 20)]) None None)))
     = [dumps (PDict [(''inputs'', PList [PStr ''Paris is the [MASK] of France.'',
                                          PStr ''The [MASK] is blue.'',
                                          PStr ''I drink [MASK] every morning.''])])]
   \<and> summarization_in_df env st df column parameters options model
     = summarization_in_df env st df column None options model"
proof
  have looked_up: "None = Some ''bart-large-cnn'' \<or>
     ((None :: string option) = None \<and> Some ''summarization'' = Some ''summarization''
        \<and> TASK_MODEL_MAP (config (client example_state)) ''summarization'' = Some ''bart-large-cnn'')"
    by (simp add: example_state_def example_client_def)
  have column: "df_getitem_tolist (example_env dumps loads service setitem) example_df ''text''
      = Inr [PStr ''Paris is the [MASK] of France.'', PStr ''The [MASK] is blue.'',
             PStr ''I drink [MASK] every morning.'']"
    by (simp add: example_env_def example_df_def)
  show "map data (sent (snd (summarization_in_df (example_env dumps loads service setitem)
      example_state example_df ''text'' (Some [(''max_length'', PInt 20)]) None None)))
     = [dumps (PDict [(''inputs'', PList [PStr ''Paris is the [MASK] of France.'',
                                          PStr ''The [MASK] is blue.'',
                                          PStr ''I drink [MASK] every morning.''])])]"
    unfolding summarization_in_df_state query_in_df_def column sum.case
      query_resolved[OF looked_up] Let_def
    by (simp add: example_state_def example_client_def example_env_def)
  show "summarization_in_df env st df column parameters options model
     = summarization_in_df env st df column None options model"
    by (simp add: summarization_in_df_def)
qed

section \<open>The client's objects under a call\<close>

text \<open>
  A method that leaves the record of the client and the store alone leaves the token, the
  configuration dict and every dict as they were.
\<close>

lemma run_method_objects:
  assumes "\<And>st. client (snd (f st)) = client st" and "\<And>st. heap (snd (f st)) = heap st"
  shows "self_api_token (snd (run_method str f ps)) = self_api_token ps
       \<and> self_config (snd (run_method str f ps)) = self_config ps
       \<and> dicts (snd (run_method str f ps)) = dicts ps"
proof -
  let ?st = "\<lparr>client = read_client str ps, sent = requests_sent ps, heap = dicts ps\<rparr>"
  obtain r st' where f: "f ?st = (r, st')" by (cases "f ?st")
  with assms(2)[of ?st] have "heap st' = dicts ps" by simp
  with f show ?thesis by (simp add: run_method_def)
qed

lemma run_method_same:
  assumes "\<And>st. client (snd (f st)) = client st" and "\<And>st. heap (snd (f st)) = heap st"
  shows "same_client_and_dicts ps (snd (run_method str f ps))"
  using run_method_objects[OF assms, of str ps] by (simp add: same_client_and_dicts_def)

text \<open>
  The only write of \<^verbatim>\<open>zero_shot_classification\<close> is the one through its \<^verbatim>\<open>parameters\<close>:
  apart from the requests sent, the objects after the call are the objects after that write.
\<close>

lemma set_candidate_labels_token [simp]:
  "self_api_token (set_candidate_labels ps r v) = self_api_token ps"
  by (cases r) (simp_all add: set_candidate_labels_def)

lemma zero_shot_classification_by_reference_state:
  "snd (zero_shot_classification_by_reference str env ps text candidate_labels parameters options model)
     = (case (case parameters of Omitted \<Rightarrow> Some (Dict default_parameters) | Passed p \<Rightarrow> p) of
          None \<Rightarrow> ps
        | Some r \<Rightarrow> (set_candidate_labels ps r (PList candidate_labels))
            \<lparr>requests_sent := requests_sent (snd (zero_shot_classification_by_reference str env ps
                 text candidate_labels parameters options model))\<rparr>)"
proof (cases "case parameters of Omitted \<Rightarrow> Some (Dict default_parameters) | Passed p \<Rightarrow> p")
  case None
  then show ?thesis by (simp add: zero_shot_classification_by_reference_def)
next
  case (Some r)
  let ?ps = "set_candidate_labels ps r (PList candidate_labels)"
  let ?f = "\<lambda>st. query env st text (Some (deref ?ps r)) (map_option (deref ?ps) options)
                           model (Some ''zero-shot-classification'')"
  let ?st = "\<lparr>client = read_client str ?ps, sent = requests_sent ?ps, heap = dicts ?ps\<rparr>"
  obtain res st' where f: "?f ?st = (res, st')" by (cases "?f ?st")
  from query_heap[of env ?st "text" "Some (deref ?ps r)" "map_option (deref ?ps) options" model
      "Some ''zero-shot-classification''"] f
  have "heap st' = dicts ?ps" by simp
  with f Some show ?thesis
    by (simp add: zero_shot_classification_by_reference_def run_method_def)
qed

lemma zero_shot_classification_by_reference_writes:
  "self_api_token (snd (zero_shot_classification_by_reference str env ps text candidate_labels
      parameters options model)) = self_api_token ps"
  "self_config (snd (zero_shot_classification_by_reference str env ps text candidate_labels
      parameters options model))
     = (case (case parameters of Omitted \<Rightarrow> Some (Dict default_parameters) | Passed p \<Rightarrow> p) of
          None \<Rightarrow> self_config ps
        | Some r \<Rightarrow> self_config (set_candidate_labels ps r (PList candidate_labels)))"
  "dicts (snd (zero_shot_classification_by_reference str env ps text candidate_labels
      parameters options model))
     = (case (case parameters of Omitted \<Rightarrow> Some (Dict default_parameters) | Passed p \<Rightarrow> p) of
          None \<Rightarrow> dicts ps
        | Some r \<Rightarrow> dicts (set_candidate_labels ps r (PList candidate_labels)))"
proof -
  obtain rs where "snd (zero_shot_classification_by_reference str env ps text candidate_labels
      parameters options model)
     = (case (case parameters of Omitted \<Rightarrow> Some (Dict default_parameters) | Passed p \<Rightarrow> p) of
          None \<Rightarrow> ps
        | Some r \<Rightarrow> (set_candidate_labels ps r (PList candidate_labels))\<lparr>requests_sent := rs\<rparr>)"
    using zero_shot_classification_by_reference_state[of str env ps "text" candidate_labels
        parameters options model]
    by blast
  then show
    "self_api_token (snd (zero_shot_classification_by_reference str env ps text candidate_labels
      parameters options model)) = self_api_token ps"
    "self_config (snd (zero_shot_classification_by_reference str env ps text candidate_labels
      parameters options model))
     = (case (case parameters of Omitted \<Rightarrow> Some (Dict default_parameters) | Passed p \<Rightarrow> p) of
          None \<Rightarrow> self_config ps
        | Some r \<Rightarrow> self_config (set_candidate_labels ps r (PList candidate_labels)))"
    "dicts (snd (zero_shot_classification_by_reference str env ps text candidate_labels
      parameters options model))
     = (case (case parameters of Omitted \<Rightarrow> Some (Dict default_parameters) | Passed p \<Rightarrow> p) of
          None \<Rightarrow> dicts ps
        | Some r \<Rightarrow> dicts (set_candidate_labels ps r (PList candidate_labels)))"
    by (simp_all split: option.split)
qed

text \<open>
  The dispatcher reads of the client its token, the base URL and the entry of the one
  task, and writing \<^verbatim>\<open>candidate_labels\<close> into a dict changes no other key of it.
\<close>

lemma map_of_dict_setitem_other:
  "k' \<noteq> k \<Longrightarrow> map_of (dict_setitem d k v) k' = map_of d k'"
  by (induction d) auto

lemma query_reads:
  assumes "sent st2 = sent st"
      and "api_token (client st2) = api_token (client st)"
      and "BASE_URL (config (client st2)) = BASE_URL (config (client st))"
      and "TASK_MODEL_MAP (config (client st2)) t = TASK_MODEL_MAP (config (client st)) t"
  shows "fst (query env st2 inputs parameters options model (Some t))
           = fst (query env st inputs parameters options model (Some t))
       \<and> sent (snd (query env st2 inputs parameters options model (Some t)))
           = sent (snd (query env st inputs parameters options model (Some t)))"
proof (cases "model = None \<and> TASK_MODEL_MAP (config (client st)) t = None")
  case True
  with assms(4) have "query env st2 inputs parameters options model (Some t) = (Inl KeyError, st2)"
    and "query env st inputs parameters options model (Some t) = (Inl KeyError, st)"
    by (simp_all add: query_unresolved)
  with assms(1) show ?thesis by simp
next
  case False
  then obtain m where r: "model = Some m \<or>
      (model = None \<and> Some t = Some t \<and> TASK_MODEL_MAP (config (client st)) t = Some m)"
    by (cases model) auto
  with assms(4) have r2: "model = Some m \<or>
      (model = None \<and> Some t = Some t \<and> TASK_MODEL_MAP (config (client st2)) t = Some m)"
    by simp
  show ?thesis
    unfolding query_resolved[OF r] query_resolved[OF r2]
    by (simp add: Let_def assms(1,2,3))
qed

text \<open>
  On references to dicts of the store, the method by reference is the method of the
  section on task methods run on the objects, also when the dict written is the
  task-to-model map itself.
\<close>

lemma zero_shot_classification_by_reference_refines:
  "zero_shot_classification_by_reference str env ps text candidate_labels
      (case parameters of Omitted \<Rightarrow> Omitted | Passed p \<Rightarrow> Passed (map_option Dict p))
      (map_option Dict options) model
   = run_method str
       (\<lambda>st. zero_shot_classification env st text candidate_labels parameters options model) ps"
proof (cases "case parameters of Omitted \<Rightarrow> Some default_parameters | Passed p \<Rightarrow> p")
  case None
  then have "parameters = Passed None" by (cases parameters) auto
  then show ?thesis
    by (simp add: zero_shot_classification_by_reference_def zero_shot_classification_def
        run_method_def)
next
  case (Some a)
  let ?written = "(dicts ps)
      (a := dict_setitem (dicts ps a) ''candidate_labels'' (PList candidate_labels))"
  let ?p = "Some (dict_setitem (dicts ps a) ''candidate_labels'' (PList candidate_labels))"
  let ?o = "map_option ?written options"
  let ?st = "\<lparr>client = read_client str ps, sent = requests_sent ps, heap = ?written\<rparr>"
  let ?st2 = "\<lparr>client = read_client str (ps\<lparr>dicts := ?written\<rparr>), sent = requests_sent ps,
               heap = ?written\<rparr>"
  have "TASK_MODEL_MAP (config (client ?st2)) ''zero-shot-classification''
      = TASK_MODEL_MAP (config (client ?st)) ''zero-shot-classification''"
    by (simp add: read_client_def map_of_dict_setitem_other)
  then have same: "fst (query env ?st2 text ?p ?o model (Some ''zero-shot-classification''))
           = fst (query env ?st text ?p ?o model (Some ''zero-shot-classification''))
       \<and> sent (snd (query env ?st2 text ?p ?o model (Some ''zero-shot-classification'')))
           = sent (snd (query env ?st text ?p ?o model (Some ''zero-shot-classification'')))"
    by (intro query_reads) (simp_all add: read_client_def)
  have heaps: "heap (snd (query env ?st2 text ?p ?o model (Some ''zero-shot-classification'')))
      = ?written"
    "heap (snd (query env ?st text ?p ?o model (Some ''zero-shot-classification''))) = ?written"
    by simp_all
  from Some have l: "zero_shot_classification_by_reference str env ps text candidate_labels
      (case parameters of Omitted \<Rightarrow> Omitted | Passed p \<Rightarrow> Passed (map_option Dict p))
      (map_option Dict options) model
    = run_method str (\<lambda>st. query env st text ?p ?o model (Some ''zero-shot-classification''))
        (ps\<lparr>dicts := ?written\<rparr>)"
    by (cases parameters)
      (auto simp add: zero_shot_classification_by_reference_def set_candidate_labels_def
        deref_def option.map_comp comp_def cong: option.map_cong)
  from Some have r: "zero_shot_classification env
        \<lparr>client = read_client str ps, sent = requests_sent ps, heap = dicts ps\<rparr>
        text candidate_labels parameters options model
    = query env ?st text ?p ?o model (Some ''zero-shot-classification'')"
    by (cases parameters) (auto simp add: zero_shot_classification_def Let_def)
  show ?thesis
    unfolding l run_method_def r
    using same heaps
    by (auto simp add: split_beta prod_eq_iff)
qed




end
